theory Spec2Isabelle
  imports Complex_Main
begin

section \<open>Kernel methods for persistence diagrams\<close>

text \<open>
  A shallow embedding of \<^verbatim>\<open>gudhi/representations/kernel_methods.py\<close>.

  Floating-point numbers are idealised as real numbers: a numpy array of shape \<open>(n, 2)\<close>
  is a list of \<open>n\<close> pairs, a matrix is a list of rows, and an exception is the left
  summand of a sum type. Where numpy would compute \<open>inf\<close> or \<open>nan\<close> (a division by a
  bandwidth equal to zero) the model has the value of the total division of HOL; the
  statements about values are made for a bandwidth other than zero.
\<close>

subsection \<open>Data\<close>

type_synonym point = "real \<times> real"

type_synonym diagram = "point list"

type_synonym matrix = "real list list"

datatype error = KeyError string | IndexError | ValueError | TypeError | AttributeError

text \<open>
  Modelled from the spec: the kernel approximation (an object of scikit-learn such as
  \<^verbatim>\<open>RBFSampler\<close>, passed in by the caller) is a capability with one operation that
  maps a sequence of points to a matrix of shape \<open>(len(points), D)\<close>. The record holds
  \<open>D\<close> and the entry \<open>(i, k)\<close> of that matrix, so that the shape is the contract's by
  construction. The approximations of scikit-learn validate the array they are given as
  \<^verbatim>\<open>pairwise_distances\<close> does: \<^verbatim>\<open>transform\<close> raises \<^verbatim>\<open>ValueError\<close> for an array
  with no row.
\<close>

record kernel_approx =
  n_components :: nat
  feature :: "diagram \<Rightarrow> nat \<Rightarrow> nat \<Rightarrow> real"

definition transform :: "kernel_approx \<Rightarrow> diagram \<Rightarrow> error + matrix" where
  "transform ka D =
     (if D = [] then Inl ValueError
      else Inr (map (\<lambda>i. map (\<lambda>k. feature ka D i k) [0..<n_components ka]) [0..<length D]))"

subsection \<open>The numpy and scikit-learn operations the kernels use\<close>

text \<open>\<^verbatim>\<open>np.matmul(ws1[:,np.newaxis], ws2[np.newaxis,:])\<close>: the outer product.\<close>

definition np_outer :: "real list \<Rightarrow> real list \<Rightarrow> matrix" where
  "np_outer ws1 ws2 = map (\<lambda>a. map (\<lambda>b. a * b) ws2) ws1"

text \<open>\<^verbatim>\<open>np.multiply\<close> on two matrices of the same shape, and \<^verbatim>\<open>np.sum\<close> of a matrix.\<close>

definition np_multiply :: "matrix \<Rightarrow> matrix \<Rightarrow> matrix" where
  "np_multiply A B = map2 (map2 (\<lambda>a b. a * b)) A B"

definition np_sum :: "matrix \<Rightarrow> real" where
  "np_sum A = sum_list (map sum_list A)"

text \<open>
  \<^verbatim>\<open>np.multiply(ws[:,np.newaxis], T)\<close> scales row \<open>i\<close> of \<open>T\<close> by \<open>ws[i]\<close>;
  \<^verbatim>\<open>np.sum(..., axis=0)\<close> adds the rows up, giving a vector with one entry per column
  (all zero when there is no row); \<^verbatim>\<open>np.matmul\<close> of two vectors is their inner product.
\<close>

definition scale_rows :: "real list \<Rightarrow> matrix \<Rightarrow> matrix" where
  "scale_rows ws T = map2 (\<lambda>w row. map (\<lambda>t. w * t) row) ws T"

definition sum_axis0 :: "nat \<Rightarrow> matrix \<Rightarrow> real list" where
  "sum_axis0 ncols A = map (\<lambda>k. sum_list (map (\<lambda>row. row ! k) A)) [0..<ncols]"

definition inner :: "real list \<Rightarrow> real list \<Rightarrow> real" where
  "inner a b = sum_list (map2 (\<lambda>x y. x * y) a b)"

definition euclidean :: "point \<Rightarrow> point \<Rightarrow> real" where
  "euclidean p q = sqrt ((fst p - fst q)\<^sup>2 + (snd p - snd q)\<^sup>2)"

text \<open>
  \<^verbatim>\<open>sklearn.metrics.pairwise_distances(D1, D2)\<close>: the matrix of Euclidean distances
  between the points of \<open>D1\<close> and those of \<open>D2\<close>. scikit-learn validates both arrays
  first (\<^verbatim>\<open>check_pairwise_arrays\<close>, which requires at least one sample) and raises
  \<^verbatim>\<open>ValueError\<close> (\<^verbatim>\<open>Found array with 0 sample(s)\<close>) for an array with no row.
\<close>

definition pairwise_distances :: "diagram \<Rightarrow> diagram \<Rightarrow> error + matrix" where
  "pairwise_distances D1 D2 =
     (if D1 = [] \<or> D2 = [] then Inl ValueError
      else Inr (map (\<lambda>p. map (\<lambda>q. euclidean p q) D2) D1))"

subsection \<open>The two point kernels\<close>

definition persistence_weighted_gaussian_kernel ::
  "diagram \<Rightarrow> diagram \<Rightarrow> (point \<Rightarrow> real) \<Rightarrow> kernel_approx option \<Rightarrow> real \<Rightarrow> error + real" where
  "persistence_weighted_gaussian_kernel D1 D2 weight kernel_approx bandwidth =
     (let ws1 = map weight D1;
          ws2 = map weight D2
      in case kernel_approx of
           Some ka \<Rightarrow>
             (case transform ka D1 of
                Inl e \<Rightarrow> Inl e
              | Inr T1 \<Rightarrow>
                  (let approx1 = sum_axis0 (n_components ka) (scale_rows ws1 T1)
                   in case transform ka D2 of
                        Inl e \<Rightarrow> Inl e
                      | Inr T2 \<Rightarrow>
                          (let approx2 = sum_axis0 (n_components ka) (scale_rows ws2 T2)
                           in Inr ((1 / (sqrt (2 * pi) * bandwidth)) * inner approx1 approx2))))
         | None \<Rightarrow>
             (let W = np_outer ws1 ws2
              in case pairwise_distances D1 D2 of
                   Inl e \<Rightarrow> Inl e
                 | Inr Dist \<Rightarrow>
                     (let E = map (map (\<lambda>d. (1 / (sqrt (2 * pi) * bandwidth))
                                   * exp (- (d\<^sup>2) / (2 * bandwidth * bandwidth)))) Dist
                      in Inr (np_sum (np_multiply W E)))))"

definition weight_pss :: "point \<Rightarrow> real" where
  "weight_pss x = (if snd x \<ge> fst x then 1 else - 1)"

text \<open>\<^verbatim>\<open>D[:,[1,0]]\<close>: the two columns of the array exchanged.\<close>

definition swap_columns :: "diagram \<Rightarrow> diagram" where
  "swap_columns D = map (\<lambda>x. (snd x, fst x)) D"

definition persistence_scale_space_kernel ::
  "diagram \<Rightarrow> diagram \<Rightarrow> kernel_approx option \<Rightarrow> real \<Rightarrow> error + real" where
  "persistence_scale_space_kernel D1 D2 kernel_approx bandwidth =
     (let DD1 = D1 @ swap_columns D1;
          DD2 = D2 @ swap_columns D2
      in case persistence_weighted_gaussian_kernel DD1 DD2 weight_pss kernel_approx bandwidth of
           Inl e \<Rightarrow> Inl e
         | Inr v \<Rightarrow> Inr (0.5 * v))"

subsection \<open>Python values and keyword arguments\<close>

text \<open>
  The values a caller passes as hyperparameters: \<^verbatim>\<open>None\<close>, a number, a weight
  function, a kernel approximation. The keyword arguments \<^verbatim>\<open>**kwargs\<close> are a
  dictionary from names to values; \<^verbatim>\<open>kwargs[k]\<close> raises \<^verbatim>\<open>KeyError\<close> with the key
  when the key is absent.
\<close>

datatype pyval = PyNone | PyInt int | PyFloat real | PyFun "point \<Rightarrow> real" | PyApprox kernel_approx

type_synonym kwargs = "string \<rightharpoonup> pyval"

definition kwargs_get :: "kwargs \<Rightarrow> string \<Rightarrow> error + pyval" where
  "kwargs_get kwargs k = (case kwargs k of None \<Rightarrow> Inl (KeyError k) | Some v \<Rightarrow> Inr v)"

fun as_number :: "pyval \<Rightarrow> real option" where
  "as_number (PyInt i) = Some (of_int i)"
| "as_number (PyFloat r) = Some r"
| "as_number PyNone = None"
| "as_number (PyFun f) = None"
| "as_number (PyApprox ka) = None"

text \<open>
  A call \<^verbatim>\<open>persistence_weighted_gaussian_kernel(D1, D2, **kwargs)\<close>. A keyword that
  is not a parameter of the function raises \<^verbatim>\<open>TypeError\<close>; an absent one takes its
  default. The body then fails where it uses a value of the wrong kind, in the order of
  the source: a weight that is not callable when it is first called (so only if there is
  a point), a kernel approximation that is neither \<^verbatim>\<open>None\<close> nor an object with
  \<^verbatim>\<open>transform\<close> (\<^verbatim>\<open>AttributeError\<close>), a bandwidth that is not a number when it is
  multiplied.
\<close>

definition pwg_body :: "diagram \<Rightarrow> diagram \<Rightarrow> (point \<Rightarrow> real) \<Rightarrow> pyval \<Rightarrow> pyval \<Rightarrow> error + real" where
  "pwg_body D1 D2 weight kernel_approx bandwidth =
     (case kernel_approx of
        PyNone \<Rightarrow>
          (case as_number bandwidth of
             None \<Rightarrow> Inl TypeError
           | Some b \<Rightarrow> persistence_weighted_gaussian_kernel D1 D2 weight None b)
      | PyApprox ka \<Rightarrow>
          (case as_number bandwidth of
             None \<Rightarrow> Inl TypeError
           | Some b \<Rightarrow> persistence_weighted_gaussian_kernel D1 D2 weight (Some ka) b)
      | PyInt i \<Rightarrow> Inl AttributeError
      | PyFloat r \<Rightarrow> Inl AttributeError
      | PyFun f \<Rightarrow> Inl AttributeError)"

definition call_pwg :: "kwargs \<Rightarrow> diagram \<Rightarrow> diagram \<Rightarrow> error + real" where
  "call_pwg kwargs D1 D2 =
     (if dom kwargs \<subseteq> {''weight'', ''kernel_approx'', ''bandwidth''} then
        (let kernel_approx = (case kwargs ''kernel_approx'' of None \<Rightarrow> PyNone | Some v \<Rightarrow> v);
             bandwidth = (case kwargs ''bandwidth'' of None \<Rightarrow> PyFloat 1 | Some v \<Rightarrow> v)
         in case kwargs ''weight'' of
              None \<Rightarrow> pwg_body D1 D2 (\<lambda>x. 1) kernel_approx bandwidth
            | Some (PyFun w) \<Rightarrow> pwg_body D1 D2 w kernel_approx bandwidth
            | Some v \<Rightarrow>
                if D1 = [] \<and> D2 = [] then pwg_body D1 D2 (\<lambda>x. 1) kernel_approx bandwidth
                else Inl TypeError)
      else Inl TypeError)"

text \<open>
  A call \<^verbatim>\<open>persistence_scale_space_kernel(D1, D2, **kwargs)\<close>: the same, with the two
  parameters \<^verbatim>\<open>kernel_approx\<close> and \<^verbatim>\<open>bandwidth\<close>.
\<close>

definition call_pss :: "kwargs \<Rightarrow> diagram \<Rightarrow> diagram \<Rightarrow> error + real" where
  "call_pss kwargs D1 D2 =
     (if dom kwargs \<subseteq> {''kernel_approx'', ''bandwidth''} then
        (let kernel_approx = (case kwargs ''kernel_approx'' of None \<Rightarrow> PyNone | Some v \<Rightarrow> v);
             bandwidth = (case kwargs ''bandwidth'' of None \<Rightarrow> PyFloat 1 | Some v \<Rightarrow> v)
         in case kernel_approx of
              PyNone \<Rightarrow>
                (case as_number bandwidth of
                   None \<Rightarrow> Inl TypeError
                 | Some b \<Rightarrow> persistence_scale_space_kernel D1 D2 None b)
            | PyApprox ka \<Rightarrow>
                (case as_number bandwidth of
                   None \<Rightarrow> Inl TypeError
                 | Some b \<Rightarrow> persistence_scale_space_kernel D1 D2 (Some ka) b)
            | PyInt i \<Rightarrow> Inl AttributeError
            | PyFloat r \<Rightarrow> Inl AttributeError
            | PyFun f \<Rightarrow> Inl AttributeError)
      else Inl TypeError)"

text \<open>
  The \<^verbatim>\<open>metric\<close> argument of the dispatcher: a string, or a function of two diagrams
  and keyword arguments. Calling a string raises \<^verbatim>\<open>TypeError\<close>.
\<close>

datatype metric = Name string | Callable "diagram \<Rightarrow> diagram \<Rightarrow> kwargs \<Rightarrow> error + real"

definition call_metric :: "metric \<Rightarrow> kwargs \<Rightarrow> diagram \<Rightarrow> diagram \<Rightarrow> error + real" where
  "call_metric metric kwargs D1 D2 =
     (case metric of Name s \<Rightarrow> Inl TypeError | Callable f \<Rightarrow> f D1 D2 kwargs)"

subsection \<open>Padding and the flattened arrays\<close>

type_synonym padded = "(real \<times> real \<times> real) list"

text \<open>
  Modelled from the spec: \<^verbatim>\<open>Padding(use=True).fit_transform\<close> of
  \<^verbatim>\<open>gudhi.representations.preprocessing\<close>, which is not among the sources. It returns
  one padded diagram per diagram, each of the common length \<open>L\<close>, the maximum diagram
  size of the batch; a row holds the two coordinates and a validity flag, 1 for a point
  of the diagram and 0 for the filler rows, which lie on the diagonal. An empty batch has
  no maximum (\<^verbatim>\<open>max\<close> of an empty sequence raises \<^verbatim>\<open>ValueError\<close>).
\<close>

definition max_pts :: "diagram list \<Rightarrow> nat" where
  "max_pts X = foldr (\<lambda>D m. max (length D) m) X 0"

definition pad :: "nat \<Rightarrow> diagram \<Rightarrow> padded" where
  "pad L D = map (\<lambda>x. (fst x, snd x, 1)) D @ replicate (L - length D) (0, 0, 0)"

definition padding_fit_transform :: "diagram list \<Rightarrow> error + padded list" where
  "padding_fit_transform X =
     (if X = [] then Inl ValueError else Inr (map (pad (max_pts X)) X))"

text \<open>
  \<^verbatim>\<open>np.vstack\<close> of a list of arrays with three columns stacks their rows and raises
  \<^verbatim>\<open>ValueError\<close> on the empty list. \<^verbatim>\<open>np.reshape(A, [-1, k])\<close> reads the entries of
  \<open>A\<close> row by row and cuts them into rows of length \<open>k\<close>; it raises \<^verbatim>\<open>ValueError\<close>
  when \<open>k\<close> is 0 (the free dimension cannot be inferred) or does not divide the number
  of entries.
\<close>

definition np_vstack :: "padded list \<Rightarrow> error + padded" where
  "np_vstack ps = (if ps = [] then Inl ValueError else Inr (concat ps))"

definition ravel :: "padded \<Rightarrow> real list" where
  "ravel A = concat (map (\<lambda>(a, b, c). [a, b, c]) A)"

function rows_of :: "nat \<Rightarrow> real list \<Rightarrow> real list list" where
  "rows_of k xs = (if k = 0 \<or> xs = [] then [] else take k xs # rows_of k (drop k xs))"
  by pat_completeness auto
termination
  by (relation "measure (\<lambda>(k, xs). length xs)") auto

definition np_reshape :: "padded \<Rightarrow> nat \<Rightarrow> error + real list list" where
  "np_reshape A k =
     (if k = 0 then Inl ValueError
      else if (3 * length A) mod k = 0 then Inr (rows_of k (ravel A))
      else Inl ValueError)"

text \<open>
  Lines 66 to 76 of the source: the padded representation of the batch, built before the
  metric is looked at. \<open>XX\<close> has one row of length \<open>3 * diag_len\<close> per diagram of \<open>X\<close>,
  \<open>YY\<close> one per diagram of \<open>Y\<close>.
\<close>

definition padded_arrays ::
  "diagram list \<Rightarrow> diagram list option \<Rightarrow> error + (real list list \<times> real list list option)" where
  "padded_arrays X Y =
     (case Y of
        None \<Rightarrow>
          (case padding_fit_transform X of
             Inl e \<Rightarrow> Inl e
           | Inr pX \<Rightarrow>
               (case pX of
                  [] \<Rightarrow> Inl IndexError
                | p0 # rest \<Rightarrow>
                    (let diag_len = length p0
                     in case np_vstack pX of
                          Inl e \<Rightarrow> Inl e
                        | Inr V \<Rightarrow>
                            (case np_reshape V (diag_len * 3) of
                               Inl e \<Rightarrow> Inl e
                             | Inr XX \<Rightarrow> Inr (XX, None)))))
      | Some Y' \<Rightarrow>
          (let nX = length X
           in case padding_fit_transform (X @ Y') of
                Inl e \<Rightarrow> Inl e
              | Inr pD \<Rightarrow>
                  (case pD of
                     [] \<Rightarrow> Inl IndexError
                   | p0 # rest \<Rightarrow>
                       (let diag_len = length p0
                        in case np_vstack (take nX pD) of
                             Inl e \<Rightarrow> Inl e
                           | Inr VX \<Rightarrow>
                               (case np_reshape VX (diag_len * 3) of
                                  Inl e \<Rightarrow> Inl e
                                | Inr XX \<Rightarrow>
                                    (case np_vstack (drop nX pD) of
                                       Inl e \<Rightarrow> Inl e
                                     | Inr VY \<Rightarrow>
                                         (case np_reshape VY (diag_len * 3) of
                                            Inl e \<Rightarrow> Inl e
                                          | Inr YY \<Rightarrow> Inr (XX, Some YY))))))))"

text \<open>
  Modelled from the spec: \<^verbatim>\<open>sklearn_wrapper\<close> of \<^verbatim>\<open>gudhi.representations.metrics\<close>,
  which is not among the sources. It turns a function of two diagrams into a function of
  two flattened padded rows: each row is cut back into rows of three entries, the rows
  whose flag is 1 are kept and their two coordinates are the diagram handed on.
\<close>

fun unravel :: "real list \<Rightarrow> error + padded" where
  "unravel [] = Inr []"
| "unravel (a # b # c # r) =
     (case unravel r of Inl e \<Rightarrow> Inl e | Inr A \<Rightarrow> Inr ((a, b, c) # A))"
| "unravel [a] = Inl ValueError"
| "unravel [a, b] = Inl ValueError"

definition strip_padding :: "padded \<Rightarrow> diagram" where
  "strip_padding A = map (\<lambda>(a, b, c). (a, b)) (filter (\<lambda>(a, b, c). c = 1) A)"

definition sklearn_wrapper ::
  "(diagram \<Rightarrow> diagram \<Rightarrow> error + real) \<Rightarrow> real list \<Rightarrow> real list \<Rightarrow> error + real" where
  "sklearn_wrapper metric D1 D2 =
     (case unravel D1 of
        Inl e \<Rightarrow> Inl e
      | Inr DD1 \<Rightarrow>
          (case unravel D2 of
             Inl e \<Rightarrow> Inl e
           | Inr DD2 \<Rightarrow> metric (strip_padding DD1) (strip_padding DD2)))"

subsection \<open>The pairwise kernel matrix of scikit-learn\<close>

text \<open>The values of a list of computations, or the first exception raised.\<close>

fun collect :: "(error + 'a) list \<Rightarrow> error + 'a list" where
  "collect [] = Inr []"
| "collect (m # ms) =
     (case m of
        Inl e \<Rightarrow> Inl e
      | Inr x \<Rightarrow> (case collect ms of Inl e \<Rightarrow> Inl e | Inr xs \<Rightarrow> Inr (x # xs)))"

text \<open>
  \<^verbatim>\<open>sklearn.metrics.pairwise.pairwise_kernels(XX, YY, metric=f)\<close> for a callable \<open>f\<close>.
  Both arrays are validated (at least one row and one column, else \<^verbatim>\<open>ValueError\<close>).
  With a second array, entry \<open>(i, j)\<close> is \<open>f (XX[i], YY[j])\<close>, computed row by row.
  Without one, \<open>f\<close> is called on the pairs \<open>i < j\<close> only, the matrix is completed by
  symmetry, and the diagonal entries \<open>f (XX[i], XX[i])\<close> are computed last.
\<close>

definition valid_array :: "real list list \<Rightarrow> bool" where
  "valid_array A = (A \<noteq> [] \<and> list_all (\<lambda>row. row \<noteq> []) A)"

definition pairwise_kernels ::
  "real list list \<Rightarrow> real list list option \<Rightarrow> (real list \<Rightarrow> real list \<Rightarrow> error + real)
     \<Rightarrow> error + matrix" where
  "pairwise_kernels XX YY f =
     (case YY of
        Some YY' \<Rightarrow>
          (if valid_array XX \<and> valid_array YY' then
             collect (map (\<lambda>x. collect (map (\<lambda>y. f x y) YY')) XX)
           else Inl ValueError)
      | None \<Rightarrow>
          (if valid_array XX then
             (let n = length XX
              in case collect (map (\<lambda>i. collect (map (\<lambda>j. f (XX ! i) (XX ! j)) [Suc i..<n]))
                                 [0..<n]) of
                   Inl e \<Rightarrow> Inl e
                 | Inr upper \<Rightarrow>
                     (case collect (map (\<lambda>x. f x x) XX) of
                        Inl e \<Rightarrow> Inl e
                      | Inr diag \<Rightarrow>
                          Inr (map (\<lambda>i. map (\<lambda>j. if i < j then upper ! i ! (j - Suc i)
                                                  else if j < i then upper ! j ! (i - Suc j)
                                                  else diag ! i) [0..<n]) [0..<n])))
           else Inl ValueError))"

subsection \<open>The dispatcher\<close>

text \<open>
  \<^verbatim>\<open>np.exp(-Dist / b)\<close>, entry by entry; a divisor that is not a number raises
  \<^verbatim>\<open>TypeError\<close>. The exponential is the one of the real numbers: the rounding of
  \<^verbatim>\<open>float64\<close> (an exponential that underflows to \<open>0.0\<close> for a large quotient, or
  rounds to \<open>1.0\<close> for a tiny one) is not modelled, and for the divisor 0, where numpy
  computes with \<open>inf\<close> and \<open>nan\<close>, the entries of the model have no meaning: the
  claims below state no value at the divisor 0.
\<close>

definition exp_neg_div :: "matrix \<Rightarrow> pyval \<Rightarrow> error + matrix" where
  "exp_neg_div Dist b =
     (case as_number b of
        None \<Rightarrow> Inl TypeError
      | Some r \<Rightarrow> Inr (map (map (\<lambda>d. exp (- d / r))) Dist))"

text \<open>
  \<^verbatim>\<open>pairwise_persistence_diagram_distances(X, Y, metric=..., **params)\<close> of
  \<^verbatim>\<open>gudhi.representations.metrics\<close> is not among the sources: the dispatcher takes it
  as a parameter, a function of the two collections, the name of the distance and its
  keyword arguments that returns a distance matrix or raises.
\<close>

type_synonym distances = "diagram list \<Rightarrow> diagram list option \<Rightarrow> string \<Rightarrow> kwargs \<Rightarrow> error + matrix"

definition pairwise_persistence_diagram_kernels ::
  "distances \<Rightarrow> diagram list \<Rightarrow> diagram list option \<Rightarrow> metric \<Rightarrow> kwargs \<Rightarrow> error + matrix" where
  "pairwise_persistence_diagram_kernels pairwise_persistence_diagram_distances X Y metric kwargs =
     (case padded_arrays X Y of
        Inl e \<Rightarrow> Inl e
      | Inr (XX, YY) \<Rightarrow>
          if metric = Name ''sliced_wasserstein'' then
            (case kwargs_get kwargs ''num_directions'' of
               Inl e \<Rightarrow> Inl e
             | Inr num_directions \<Rightarrow>
                 (case pairwise_persistence_diagram_distances X Y ''sliced_wasserstein''
                         [''num_directions'' \<mapsto> num_directions] of
                    Inl e \<Rightarrow> Inl e
                  | Inr Dist \<Rightarrow>
                      (case kwargs_get kwargs ''bandwidth'' of
                         Inl e \<Rightarrow> Inl e
                       | Inr bandwidth \<Rightarrow> exp_neg_div Dist bandwidth)))
          else if metric = Name ''persistence_fisher'' then
            (case kwargs_get kwargs ''kernel_approx'' of
               Inl e \<Rightarrow> Inl e
             | Inr kernel_approx \<Rightarrow>
                 (case kwargs_get kwargs ''bandwidth'' of
                    Inl e \<Rightarrow> Inl e
                  | Inr bandwidth \<Rightarrow>
                      (case pairwise_persistence_diagram_distances X Y ''persistence_fisher''
                              [''kernel_approx'' \<mapsto> kernel_approx, ''bandwidth'' \<mapsto> bandwidth] of
                         Inl e \<Rightarrow> Inl e
                       | Inr Dist \<Rightarrow>
                           (case kwargs_get kwargs ''bandwidth_fisher'' of
                              Inl e \<Rightarrow> Inl e
                            | Inr bandwidth_fisher \<Rightarrow> exp_neg_div Dist bandwidth_fisher))))
          else if metric = Name ''persistence_scale_space'' then
            pairwise_kernels XX YY (sklearn_wrapper (call_pss kwargs))
          else if metric = Name ''persistence_weighted_gaussian'' then
            pairwise_kernels XX YY (sklearn_wrapper (call_pwg kwargs))
          else pairwise_kernels XX YY (sklearn_wrapper (call_metric metric kwargs)))"

text \<open>
  Three notions the statements below use. The padded representation can be built for a
  batch exactly when no collection is empty and some diagram of the batch has a point.
  For a metric that is not one of the two distance-based names, the dispatcher applies
  a scalar kernel to pairs of diagrams. A matrix has shape \<open>(P, Q)\<close> when it has \<open>P\<close>
  rows of length \<open>Q\<close>.
\<close>

definition batch_ok :: "diagram list \<Rightarrow> diagram list option \<Rightarrow> bool" where
  "batch_ok X Y =
     (case Y of
        None \<Rightarrow> X \<noteq> [] \<and> max_pts X \<noteq> 0
      | Some Y' \<Rightarrow> X \<noteq> [] \<and> Y' \<noteq> [] \<and> max_pts (X @ Y') \<noteq> 0)"




subsection \<open>The four estimators\<close>














section \<open>Properties of the point kernels\<close>

subsection \<open>Sums over lists\<close>

lemma np_sum_weighted:
  "np_sum (np_multiply (np_outer (map w D1) (map w D2)) (map (\<lambda>p. map (\<lambda>q. g p q) D2) D1))
     = sum_list (map (\<lambda>p. sum_list (map (\<lambda>q. w p * w q * g p q) D2)) D1)"
  by (simp add: np_sum_def np_multiply_def np_outer_def zip_map_map zip_same_conv_map comp_def)

lemma sum_list_swap:
  fixes f :: "'a \<Rightarrow> 'b \<Rightarrow> real"
  shows "sum_list (map (\<lambda>p. sum_list (map (\<lambda>q. f p q) ys)) xs)
       = sum_list (map (\<lambda>q. sum_list (map (\<lambda>p. f p q) xs)) ys)"
  by (induction xs) (simp_all add: sum_list_addf)

lemma euclidean_sq: "(euclidean p q)\<^sup>2 = (fst p - fst q)\<^sup>2 + (snd p - snd q)\<^sup>2"
  by (simp add: euclidean_def)

lemma euclidean_commute: "euclidean p q = euclidean q p"
  by (simp add: euclidean_def power2_commute)

lemma map_map_rows:
  "map (map h) (map (\<lambda>p. map (\<lambda>q. g p q) ys) xs) = map (\<lambda>p. map (\<lambda>q. h (g p q)) ys) xs"
  by (simp add: comp_def)

lemma inner_commute: "inner a b = inner b a"
proof -
  have "map2 (\<lambda>x y. x * y) a b = map2 (\<lambda>x y. x * y) b a"
    by (subst zip_commute) (simp add: case_prod_unfold mult.commute)
  then show ?thesis by (simp add: inner_def)
qed

subsection \<open>The exact path of the weighted Gaussian kernel\<close>

lemma exact_value:
  assumes "D1 \<noteq> []" "D2 \<noteq> []"
  shows "persistence_weighted_gaussian_kernel D1 D2 weight None bandwidth =
    Inr (sum_list (map (\<lambda>p. sum_list (map (\<lambda>q. weight p * weight q *
          ((1 / (sqrt (2 * pi) * bandwidth))
            * exp (- ((euclidean p q)\<^sup>2) / (2 * bandwidth * bandwidth)))) D2)) D1))"
proof -
  have pd: "pairwise_distances D1 D2 = Inr (map (\<lambda>p. map (\<lambda>q. euclidean p q) D2) D1)"
    using assms by (simp add: pairwise_distances_def)
  show ?thesis
    unfolding persistence_weighted_gaussian_kernel_def Let_def pd
    by (simp only: option.case sum.case map_map_rows np_sum_weighted)
qed

lemma pwg_commute:
  "persistence_weighted_gaussian_kernel D1 D2 weight approx bandwidth =
   persistence_weighted_gaussian_kernel D2 D1 weight approx bandwidth"
proof (cases approx)
  case (Some ka)
  then show ?thesis
    by (simp add: persistence_weighted_gaussian_kernel_def Let_def transform_def
          inner_commute [of "sum_axis0 n a" "sum_axis0 n b" for n a b])
next
  case None
  show ?thesis
  proof (cases "D1 = [] \<or> D2 = []")
    case True
    then show ?thesis using None
      by (auto simp add: persistence_weighted_gaussian_kernel_def Let_def pairwise_distances_def)
  next
    case False
    then have ne: "D1 \<noteq> []" "D2 \<noteq> []" by simp_all
    let ?f = "\<lambda>p q. weight p * weight q *
          ((1 / (sqrt (2 * pi) * bandwidth))
            * exp (- ((euclidean p q)\<^sup>2) / (2 * bandwidth * bandwidth)))"
    have sym: "?f p q = ?f q p" for p q
      by (simp only: euclidean_commute [of p q] mult.commute [of "weight p" "weight q"])
    have "sum_list (map (\<lambda>p. sum_list (map (\<lambda>q. ?f p q) D2)) D1)
        = sum_list (map (\<lambda>q. sum_list (map (\<lambda>p. ?f p q) D1)) D2)"
      by (rule sum_list_swap)
    also have "\<dots> = sum_list (map (\<lambda>q. sum_list (map (\<lambda>p. ?f q p) D1)) D2)"
      by (simp only: sym)
    finally show ?thesis
      unfolding None exact_value [OF ne] exact_value [OF ne(2) ne(1)] by (simp only:)
  qed
qed

text \<open>
  Claim C3. For non-empty diagrams \<open>D1\<close> (\<open>n\<close> points) and \<open>D2\<close> (\<open>m\<close> points), any
  weight function and a positive bandwidth, the kernel without an approximation is
  \<open>1 / (sqrt (2 pi) bandwidth)\<close> times the double sum over \<open>i\<close> and \<open>j\<close> of
  \<open>weight (D1[i]) * weight (D2[j]) * exp (- |D1[i] - D2[j]|\<^sup>2 / (2 bandwidth\<^sup>2))\<close>, the
  norm being the Euclidean one.
\<close>

theorem pwg_exact_formula:
  assumes "D1 \<noteq> []" and "D2 \<noteq> []" and "0 < bandwidth"
  shows "persistence_weighted_gaussian_kernel D1 D2 weight None bandwidth =
     Inr ((1 / (sqrt (2 * pi) * bandwidth)) *
          (\<Sum>i<length D1. \<Sum>j<length D2.
             weight (D1 ! i) * weight (D2 ! j) *
             exp (- ((fst (D1 ! i) - fst (D2 ! j))\<^sup>2 + (snd (D1 ! i) - snd (D2 ! j))\<^sup>2)
                  / (2 * bandwidth\<^sup>2))))"
proof -
  let ?c = "1 / (sqrt (2 * pi) * bandwidth)"
  let ?g = "\<lambda>p q. exp (- ((fst p - fst q)\<^sup>2 + (snd p - snd q)\<^sup>2) / (2 * bandwidth\<^sup>2))"
  have term_eq: "weight p * weight q
        * (?c * exp (- ((euclidean p q)\<^sup>2) / (2 * bandwidth * bandwidth)))
      = ?c * (weight p * weight q * ?g p q)" for p q
  proof -
    have "2 * bandwidth * bandwidth = 2 * bandwidth\<^sup>2" by (simp add: power2_eq_square)
    then show ?thesis by (simp only: euclidean_sq mult_ac)
  qed
  have row: "sum_list (map (\<lambda>q. weight p * weight q
        * (?c * exp (- ((euclidean p q)\<^sup>2) / (2 * bandwidth * bandwidth)))) D2)
      = ?c * (\<Sum>j<length D2. weight p * weight (D2 ! j) * ?g p (D2 ! j))" for p
  proof -
    have "sum_list (map (\<lambda>q. weight p * weight q
            * (?c * exp (- ((euclidean p q)\<^sup>2) / (2 * bandwidth * bandwidth)))) D2)
       = sum_list (map (\<lambda>q. ?c * (weight p * weight q * ?g p q)) D2)"
      by (simp only: term_eq)
    also have "\<dots> = ?c * sum_list (map (\<lambda>q. weight p * weight q * ?g p q) D2)"
      by (rule sum_list_const_mult)
    also have "sum_list (map (\<lambda>q. weight p * weight q * ?g p q) D2)
       = (\<Sum>j<length D2. weight p * weight (D2 ! j) * ?g p (D2 ! j))"
      by (simp add: sum_list_sum_nth atLeast0LessThan)
    finally show ?thesis .
  qed
  have "sum_list (map (\<lambda>p. sum_list (map (\<lambda>q. weight p * weight q
          * (?c * exp (- ((euclidean p q)\<^sup>2) / (2 * bandwidth * bandwidth)))) D2)) D1)
     = sum_list (map (\<lambda>p. ?c * (\<Sum>j<length D2. weight p * weight (D2 ! j) * ?g p (D2 ! j))) D1)"
    by (simp only: row)
  also have "\<dots> = ?c * sum_list
        (map (\<lambda>p. (\<Sum>j<length D2. weight p * weight (D2 ! j) * ?g p (D2 ! j))) D1)"
    by (rule sum_list_const_mult)
  also have "sum_list (map (\<lambda>p. (\<Sum>j<length D2. weight p * weight (D2 ! j) * ?g p (D2 ! j))) D1)
     = (\<Sum>i<length D1. \<Sum>j<length D2. weight (D1 ! i) * weight (D2 ! j) * ?g (D1 ! i) (D2 ! j))"
    by (simp add: sum_list_sum_nth atLeast0LessThan)
  finally show ?thesis
    by (simp only: exact_value [OF assms(1,2)])
qed

text \<open>
  The formula at two equal one-point diagrams, constant weight 1 and bandwidth 1: the
  distance is 0, the exponential is 1 and the value is \<open>1 / sqrt (2 pi)\<close>.
\<close>

theorem pwg_exact_formula_witness:
  "[(0, 1)] \<noteq> ([] :: diagram) \<and> (0::real) < 1 \<and>
   persistence_weighted_gaussian_kernel [(0, 1)] [(0, 1)] (\<lambda>x. 1) None 1 = Inr (1 / sqrt (2 * pi))"
  using pwg_exact_formula [of "[(0, 1)]" "[(0, 1)]" 1 "\<lambda>x. 1"] by simp

text \<open>
  Claim C7. The weighted Gaussian kernel and the scale space kernel are symmetric in
  their two diagrams, for every weight function, approximation and bandwidth. Over the
  reals the two values are equal; an exception raised for one order is raised for the
  other.
\<close>

theorem kernels_symmetric:
  "persistence_weighted_gaussian_kernel D1 D2 weight approx bandwidth =
     persistence_weighted_gaussian_kernel D2 D1 weight approx bandwidth
   \<and> persistence_scale_space_kernel D1 D2 approx bandwidth =
     persistence_scale_space_kernel D2 D1 approx bandwidth"
  by (simp only: persistence_scale_space_kernel_def Let_def
        pwg_commute [of "D1 @ swap_columns D1" "D2 @ swap_columns D2"]
        pwg_commute [of D1 D2] simp_thms)

text \<open>
  Claim C2, as the code has it. With the zero-length diagram as first argument and no
  approximation, the kernel does not return 0: \<^verbatim>\<open>pairwise_distances\<close> rejects an array
  with no row and the call raises \<^verbatim>\<open>ValueError\<close>, for every second diagram, weight
  function and bandwidth.
\<close>

theorem pwg_empty_first:
  "persistence_weighted_gaussian_kernel [] D2 weight None bandwidth = Inl ValueError"
  by (simp add: persistence_weighted_gaussian_kernel_def pairwise_distances_def Let_def)

text \<open>
  Claim C2 as stated fails at the empty diagram against the diagram \<open>[(0, 1)]\<close>, with
  constant weight 1 and bandwidth 1: the result is not the value 0.
\<close>

theorem pwg_empty_first_counterexample:
  "persistence_weighted_gaussian_kernel [] [(0, 1)] (\<lambda>x. 1) None 1 \<noteq> Inr 0"
  by (simp add: persistence_weighted_gaussian_kernel_def pairwise_distances_def)

text \<open>
  Claim C4. The scale space kernel is 0.5 times the weighted Gaussian kernel of the
  augmented diagrams, each diagram followed by its mirror image (the two coordinates of
  every point exchanged, in the same order), with the weight \<open>+1\<close> where death is at
  least birth and \<open>-1\<close> elsewhere; an exception of the weighted Gaussian kernel is passed
  on. A point on the diagonal has weight \<open>+1\<close>.
\<close>

theorem pss_is_half_pwg_of_mirrored:
  "persistence_scale_space_kernel D1 D2 approx bandwidth =
     (case persistence_weighted_gaussian_kernel
             (D1 @ map (\<lambda>(birth, death). (death, birth)) D1)
             (D2 @ map (\<lambda>(birth, death). (death, birth)) D2)
             (\<lambda>(birth, death). if death \<ge> birth then 1 else - 1) approx bandwidth of
        Inl e \<Rightarrow> Inl e
      | Inr v \<Rightarrow> Inr (0.5 * v))
   \<and> weight_pss (b, b) = 1"
proof -
  have w: "weight_pss = (\<lambda>(birth, death). if death \<ge> birth then 1 else - 1)"
    by (auto simp add: weight_pss_def fun_eq_iff)
  have s: "swap_columns D = map (\<lambda>(birth, death). (death, birth)) D" for D
    by (simp add: swap_columns_def case_prod_unfold)
  show ?thesis
    unfolding persistence_scale_space_kernel_def Let_def w s by simp
qed

section \<open>Properties of the dispatcher\<close>

subsection \<open>Padding and flattening\<close>

declare rows_of.simps [simp del]

lemma length_le_max_pts: "D \<in> set X \<Longrightarrow> length D \<le> max_pts X"
  unfolding max_pts_def by (induction X) auto


lemma length_pad: "length D \<le> L \<Longrightarrow> length (pad L D) = L"
  by (simp add: pad_def)


lemma length_ravel: "length (ravel A) = 3 * length A"
  by (induction A) (auto simp add: ravel_def)

lemma ravel_concat: "ravel (concat ps) = concat (map ravel ps)"
  by (induction ps) (simp_all add: ravel_def)


lemma rows_of_concat:
  "0 < k \<Longrightarrow> \<forall>r\<in>set rs. length r = k \<Longrightarrow> rows_of k (concat rs) = rs"
proof (induction rs)
  case Nil
  then show ?case by (simp add: rows_of.simps)
next
  case (Cons r rs)
  then have "r \<noteq> []" by auto
  with Cons show ?case
    by (subst rows_of.simps) simp
qed


lemma np_reshape_stack:
  assumes "0 < L" and "\<forall>p\<in>set ps. length p = L"
  shows "np_reshape (concat ps) (L * 3) = Inr (map ravel ps)"
proof -
  have len: "length (concat ps) = length ps * L"
    using assms(2) by (induction ps) auto
  have rows: "rows_of (L * 3) (concat (map ravel ps)) = map ravel ps"
    using assms by (intro rows_of_concat) (auto simp add: length_ravel)
  show ?thesis
    using assms(1) by (simp add: np_reshape_def len ravel_concat rows)
qed

lemma padded_arrays_None:
  "padded_arrays X None =
     (if X = [] \<or> max_pts X = 0 then Inl ValueError
      else Inr (map (\<lambda>D. ravel (pad (max_pts X) D)) X, None))"
proof (cases "X = []")
  case True
  then show ?thesis by (simp add: padded_arrays_def padding_fit_transform_def)
next
  case False
  then obtain D0 X' where X: "X = D0 # X'" by (cases X) auto
  let ?L = "max_pts X"
  have lens: "\<forall>p\<in>set (map (pad ?L) X). length p = ?L"
    by (auto simp add: length_pad length_le_max_pts)
  have l0: "length (pad ?L D0) = ?L"
    using lens X by simp
  show ?thesis
  proof (cases "?L = 0")
    case True
    then show ?thesis using False l0 X
      by (simp add: padded_arrays_def padding_fit_transform_def np_vstack_def np_reshape_def Let_def)
  next
    case L: False
    then have "np_reshape (concat (map (pad ?L) X)) (?L * 3) = Inr (map ravel (map (pad ?L) X))"
      using lens by (intro np_reshape_stack) auto
    then show ?thesis using False L l0 X
      by (simp add: padded_arrays_def padding_fit_transform_def np_vstack_def Let_def comp_def)
  qed
qed

lemma padded_arrays_Some:
  "padded_arrays X (Some Y) =
     (if X = [] \<or> Y = [] \<or> max_pts (X @ Y) = 0 then Inl ValueError
      else Inr (map (\<lambda>D. ravel (pad (max_pts (X @ Y)) D)) X,
                Some (map (\<lambda>D. ravel (pad (max_pts (X @ Y)) D)) Y)))"
proof (cases "X = []")
  case True
  then show ?thesis
    by (cases Y) (simp_all add: padded_arrays_def padding_fit_transform_def np_vstack_def Let_def)
next
  case False
  let ?L = "max_pts (X @ Y)"
  have lens: "\<forall>p\<in>set (map (pad ?L) (X @ Y)). length p = ?L"
    by (auto simp add: length_pad length_le_max_pts)
  have l0: "length (pad ?L (hd X)) = ?L"
    using lens False by (cases X) auto
  have pft: "padding_fit_transform (X @ Y) = Inr (map (pad ?L) X @ map (pad ?L) Y)"
    using False by (simp add: padding_fit_transform_def)
  show ?thesis
  proof (cases "?L = 0")
    case True
    then show ?thesis using False l0
      by (simp add: padded_arrays_def Let_def pft list.case_eq_if hd_append hd_map
            np_vstack_def np_reshape_def)
  next
    case L: False
    have rx: "np_reshape (concat (map (pad ?L) X)) (?L * 3) = Inr (map ravel (map (pad ?L) X))"
      using lens L by (intro np_reshape_stack) auto
    have ry: "np_reshape (concat (map (pad ?L) Y)) (?L * 3) = Inr (map ravel (map (pad ?L) Y))"
      using lens L by (intro np_reshape_stack) auto
    show ?thesis using False L l0 rx ry
      by (simp add: padded_arrays_def Let_def pft list.case_eq_if hd_append hd_map
            np_vstack_def comp_def)
  qed
qed

subsection \<open>Collecting results and the pairwise matrix\<close>










subsection \<open>The branches of the dispatcher\<close>

lemma padded_arrays_not_ok: "\<not> batch_ok X Y \<Longrightarrow> padded_arrays X Y = Inl ValueError"
  by (cases Y) (auto simp add: batch_ok_def padded_arrays_None padded_arrays_Some)

lemma padded_arrays_ok_None:
  "batch_ok X None \<Longrightarrow>
     padded_arrays X None = Inr (map (\<lambda>D. ravel (pad (max_pts X) D)) X, None)"
  by (simp add: batch_ok_def padded_arrays_None)

lemma padded_arrays_ok_Some:
  "batch_ok X (Some Y) \<Longrightarrow>
     padded_arrays X (Some Y) = Inr (map (\<lambda>D. ravel (pad (max_pts (X @ Y)) D)) X,
                Some (map (\<lambda>D. ravel (pad (max_pts (X @ Y)) D)) Y))"
  by (simp add: batch_ok_def padded_arrays_Some)

lemma padded_arrays_ok: "batch_ok X Y \<Longrightarrow> \<exists>XX YY. padded_arrays X Y = Inr (XX, YY)"
  by (cases Y) (simp_all add: padded_arrays_ok_None padded_arrays_ok_Some)

lemma dispatch_not_ok:
  "\<not> batch_ok X Y \<Longrightarrow> pairwise_persistence_diagram_kernels dists X Y metric kwargs = Inl ValueError"
  by (simp add: pairwise_persistence_diagram_kernels_def padded_arrays_not_ok)


lemma dispatch_pf:
  assumes "batch_ok X Y"
  shows "pairwise_persistence_diagram_kernels dists X Y (Name ''persistence_fisher'') kwargs =
     (case kwargs ''kernel_approx'' of
        None \<Rightarrow> Inl (KeyError ''kernel_approx'')
      | Some ka \<Rightarrow>
          (case kwargs ''bandwidth'' of
             None \<Rightarrow> Inl (KeyError ''bandwidth'')
           | Some b \<Rightarrow>
               (case dists X Y ''persistence_fisher'' [''kernel_approx'' \<mapsto> ka, ''bandwidth'' \<mapsto> b] of
                  Inl e \<Rightarrow> Inl e
                | Inr Dist \<Rightarrow>
                    (case kwargs ''bandwidth_fisher'' of
                       None \<Rightarrow> Inl (KeyError ''bandwidth_fisher'')
                     | Some bf \<Rightarrow> exp_neg_div Dist bf))))"
proof -
  from padded_arrays_ok [OF assms] obtain XX YY where "padded_arrays X Y = Inr (XX, YY)" by blast
  then show ?thesis
    by (simp add: pairwise_persistence_diagram_kernels_def kwargs_get_def split: option.splits sum.splits)
qed




lemma exp_neg_div_Inr:
  "exp_neg_div Dist b = Inr M \<Longrightarrow>
     \<exists>r. as_number b = Some r \<and> M = map (map (\<lambda>d. exp (- d / r))) Dist"
  by (auto simp add: exp_neg_div_def split: option.splits)

subsection \<open>Shapes and entries\<close>




lemma dispatch_returns_ok:
  "pairwise_persistence_diagram_kernels dists X Y metric kwargs = Inr M \<Longrightarrow> batch_ok X Y"
  using dispatch_not_ok [of X Y dists metric kwargs] by auto


lemma pf_returns:
  assumes "pairwise_persistence_diagram_kernels dists X Y (Name ''persistence_fisher'') kwargs = Inr M"
  shows "\<exists>ka bw Dist v b. kwargs ''kernel_approx'' = Some ka \<and> kwargs ''bandwidth'' = Some bw
      \<and> dists X Y ''persistence_fisher'' [''kernel_approx'' \<mapsto> ka, ''bandwidth'' \<mapsto> bw] = Inr Dist
      \<and> kwargs ''bandwidth_fisher'' = Some v \<and> as_number v = Some b
      \<and> M = map (map (\<lambda>d. exp (- d / b))) Dist"
proof -
  have ok: "batch_ok X Y" using assms by (rule dispatch_returns_ok)
  show ?thesis
    using assms unfolding dispatch_pf [OF ok]
    by (auto split: option.splits sum.splits dest!: exp_neg_div_Inr)
qed








subsection \<open>Calls of the point kernels\<close>












lemma max_pts_Cons: "max_pts (D # X) = max (length D) (max_pts X)"
  by (simp add: max_pts_def)

lemma max_pts_Nil: "max_pts [] = 0"
  by (simp add: max_pts_def)





subsection \<open>The matrix of a single collection\<close>






subsection \<open>The estimators\<close>












subsection \<open>The kernel matrix\<close>



text \<open>
  Claim C1, at a concrete call. The claim has \<^verbatim>\<open>bandwidth_fisher\<close> passed to the
  distance and \<^verbatim>\<open>bandwidth\<close> as the divisor of the exponent; the code does the
  opposite. Here the distance function returns the \<^verbatim>\<open>bandwidth\<close> keyword it receives
  as the single distance; with \<^verbatim>\<open>bandwidth = 1\<close> and \<^verbatim>\<open>bandwidth_fisher = 2\<close> the
  kernel value is \<open>exp (- 1 / 2)\<close>: the distance was given the value of
  \<^verbatim>\<open>bandwidth\<close> and the division is by the value of \<^verbatim>\<open>bandwidth_fisher\<close>. The
  roles of the claim would give \<open>exp (- 2 / 1)\<close>.
\<close>

theorem pf_bandwidths_swapped:
  "pairwise_persistence_diagram_kernels
      (\<lambda>X Y name kw. case kw ''bandwidth'' of Some (PyFloat b) \<Rightarrow> Inr [[b]] | _ \<Rightarrow> Inl TypeError)
      [[(0, 1)]] None (Name ''persistence_fisher'')
      [''kernel_approx'' \<mapsto> PyNone, ''bandwidth'' \<mapsto> PyFloat 1, ''bandwidth_fisher'' \<mapsto> PyFloat 2]
    = Inr [[exp (- 1 / 2)]]
   \<and> exp (- 1 / 2) \<noteq> exp (- 2 / (1::real))"
proof -
  have ok: "batch_ok [[(0, 1)]] None"
    by (simp add: batch_ok_def max_pts_Cons max_pts_Nil)
  show ?thesis
    by (simp add: dispatch_pf [OF ok] exp_neg_div_def)
qed

text \<open>
  Claim C9, at a concrete call. The claim puts every entry of the persistence Fisher
  kernel matrix in the interval \<open>(0, 1]\<close> when the distances are not negative and the
  bandwidth of the exponent, \<^verbatim>\<open>bandwidth\<close>, is positive. The code divides the distances
  by the value of \<^verbatim>\<open>bandwidth_fisher\<close> instead (the exchange of claim C1): with
  \<^verbatim>\<open>bandwidth = 1\<close>, \<^verbatim>\<open>bandwidth_fisher = - 1\<close> and two diagrams at distance 1 the
  entry is \<open>exp 1\<close>, which is greater than 1.
\<close>

theorem pf_entry_exceeds_one:
  "pairwise_persistence_diagram_kernels (\<lambda>X Y name kw. Inr [[1]])
      [[(0, 1)]] (Some [[(0, 2)]]) (Name ''persistence_fisher'')
      [''kernel_approx'' \<mapsto> PyNone, ''bandwidth'' \<mapsto> PyFloat 1, ''bandwidth_fisher'' \<mapsto> PyFloat (- 1)]
    = Inr [[exp 1]]
   \<and> (1::real) < exp 1"
proof -
  have ok: "batch_ok [[(0, 1)]] (Some [[(0, 2)]])"
    by (simp add: batch_ok_def max_pts_Cons max_pts_Nil)
  show ?thesis
    by (simp add: dispatch_pf [OF ok] exp_neg_div_def)
qed




subsection \<open>Symmetry of the self-kernel matrix\<close>









subsection \<open>Missing keywords\<close>




text \<open>
  Claim C10, as the code has it. The persistence Fisher branch needs the keyword
  \<^verbatim>\<open>kernel_approx\<close>: when the padding step succeeds and the keyword is absent, the call
  raises \<^verbatim>\<open>KeyError\<close> with \<^verbatim>\<open>kernel_approx\<close>, whatever the other keywords are; on an
  empty collection or a batch without any point it raises \<^verbatim>\<open>ValueError\<close> in the
  padding step, before any keyword is looked up; in both cases no matrix is returned.
  The value of the keyword is handed to the distance computation: a matrix that is
  returned has the shape, row by row, of a distance matrix computed with that value.
\<close>

theorem pf_requires_kernel_approx:
  "(kwargs ''kernel_approx'' = None \<longrightarrow>
      (batch_ok X Y \<longrightarrow>
         pairwise_persistence_diagram_kernels dists X Y (Name ''persistence_fisher'') kwargs
           = Inl (KeyError ''kernel_approx''))
    \<and> (\<not> batch_ok X Y \<longrightarrow>
         pairwise_persistence_diagram_kernels dists X Y (Name ''persistence_fisher'') kwargs
           = Inl ValueError)
    \<and> (\<forall>M. pairwise_persistence_diagram_kernels dists X Y (Name ''persistence_fisher'') kwargs
              \<noteq> Inr M))
   \<and> (pairwise_persistence_diagram_kernels dists X Y (Name ''persistence_fisher'') kwargs = Inr K \<longrightarrow>
        (\<exists>a kw D. kwargs ''kernel_approx'' = Some a \<and> kw ''kernel_approx'' = Some a
           \<and> dists X Y ''persistence_fisher'' kw = Inr D
           \<and> map length K = map length D))"
proof (intro conjI impI allI)
  assume "kwargs ''kernel_approx'' = None" and "batch_ok X Y"
  then show "pairwise_persistence_diagram_kernels dists X Y (Name ''persistence_fisher'') kwargs
           = Inl (KeyError ''kernel_approx'')"
    by (simp add: dispatch_pf)
next
  assume "\<not> batch_ok X Y"
  then show "pairwise_persistence_diagram_kernels dists X Y (Name ''persistence_fisher'') kwargs
           = Inl ValueError"
    by (rule dispatch_not_ok)
next
  fix M
  assume k: "kwargs ''kernel_approx'' = None"
  show "pairwise_persistence_diagram_kernels dists X Y (Name ''persistence_fisher'') kwargs \<noteq> Inr M"
  proof
    assume "pairwise_persistence_diagram_kernels dists X Y (Name ''persistence_fisher'') kwargs = Inr M"
    from pf_returns [OF this] k show False by auto
  qed
next
  assume "pairwise_persistence_diagram_kernels dists X Y (Name ''persistence_fisher'') kwargs = Inr K"
  from pf_returns [OF this] obtain ka bw D v b where
    a: "kwargs ''kernel_approx'' = Some ka"
    and d: "dists X Y ''persistence_fisher'' [''kernel_approx'' \<mapsto> ka, ''bandwidth'' \<mapsto> bw] = Inr D"
    and K: "K = map (map (\<lambda>d. exp (- d / b))) D"
    by blast
  have "[''kernel_approx'' \<mapsto> ka, ''bandwidth'' \<mapsto> bw] ''kernel_approx'' = Some ka" by simp
  moreover have "map length K = map length D" by (simp add: K comp_def)
  ultimately show "\<exists>a kw D. kwargs ''kernel_approx'' = Some a \<and> kw ''kernel_approx'' = Some a
           \<and> dists X Y ''persistence_fisher'' kw = Inr D
           \<and> map length K = map length D"
    using a d by blast
qed

text \<open>
  One diagram with one point and the two bandwidths, without \<^verbatim>\<open>kernel_approx\<close>: the
  call raises \<^verbatim>\<open>KeyError\<close> with \<^verbatim>\<open>kernel_approx\<close>.
\<close>

theorem pf_requires_kernel_approx_witness:
  "batch_ok [[(0, 1)]] None
   \<and> pairwise_persistence_diagram_kernels (\<lambda>X Y name kw. Inr [[0]]) [[(0, 1)]] None
        (Name ''persistence_fisher'')
        [''bandwidth'' \<mapsto> PyFloat 1, ''bandwidth_fisher'' \<mapsto> PyFloat 1]
      = Inl (KeyError ''kernel_approx'')"
proof -
  have ok: "batch_ok [[(0, 1)]] None"
    by (simp add: batch_ok_def max_pts_Cons max_pts_Nil)
  from pf_requires_kernel_approx [of "[''bandwidth'' \<mapsto> PyFloat 1, ''bandwidth_fisher'' \<mapsto> PyFloat 1]"
      "[[(0, 1)]]" None "\<lambda>X Y name kw. Inr [[0]]"] ok
  show ?thesis by simp
qed

text \<open>
  Claim C10 as stated fails when the first collection is empty: with the two bandwidths
  and no \<^verbatim>\<open>kernel_approx\<close>, the call on the empty list against one diagram raises
  \<^verbatim>\<open>ValueError\<close> (\<^verbatim>\<open>np.vstack\<close> of an empty list), not a \<^verbatim>\<open>KeyError\<close>.
\<close>

theorem pf_requires_kernel_approx_counterexample:
  "pairwise_persistence_diagram_kernels (\<lambda>X Y name kw. Inr [[0]]) [] (Some [[(0, 1)]])
      (Name ''persistence_fisher'')
      [''bandwidth'' \<mapsto> PyFloat 1, ''bandwidth_fisher'' \<mapsto> PyFloat 1] = Inl ValueError
   \<and> pairwise_persistence_diagram_kernels (\<lambda>X Y name kw. Inr [[0]]) [] (Some [[(0, 1)]])
      (Name ''persistence_fisher'')
      [''bandwidth'' \<mapsto> PyFloat 1, ''bandwidth_fisher'' \<mapsto> PyFloat 1]
      \<noteq> Inl (KeyError ''kernel_approx'')"
  by (simp add: pairwise_persistence_diagram_kernels_def padded_arrays_def
        padding_fit_transform_def np_vstack_def max_pts_Cons max_pts_Nil)

end
